theory Spec2Isabelle
  imports Main "HOL-Library.Word"
begin

section \<open>JavaScript values\<close>

text \<open>
  The module under verification is \<^verbatim>\<open>src/lib/nexmo.js\<close>. Its functions take and
  return untyped JavaScript values, so the embedding starts with the values themselves.

  A string is its sequence of UTF-16 code units: \<open>length\<close> is the \<^verbatim>\<open>.length\<close> of the
  source, and the number of bytes a string takes on the wire is a different function
  (\<open>utf8_length\<close> below). \<open>lit\<close> writes an ASCII literal of the source.
\<close>

type_synonym jsstring = "16 word list"

definition lit :: "string \<Rightarrow> jsstring" where
  "lit s = map (\<lambda>c. of_nat (of_char c)) s"

text \<open>
  The values. Numbers are the integers (a double holds every integer the module meets
  exactly); fractions, infinities and NaN are not values of the model, and a conversion
  to number that yields NaN is \<open>None\<close>.

  \<^item> \<open>JFun k a\<close> is a function supplied by the caller: \<open>k\<close> names it, \<open>a\<close> is its
    declared arity (its \<^verbatim>\<open>.length\<close>).
  \<^item> \<open>JGuard c\<close> is the anonymous function of lines 539--550, which \<^verbatim>\<open>sendMessage\<close>
    passes to \<^verbatim>\<open>sendRequest\<close>; it closes over \<^verbatim>\<open>sendMessage\<close>'s \<^verbatim>\<open>callback\<close>, here \<open>c\<close>.
  \<^item> \<open>JError kind m\<close> is an error object built with message argument \<open>m\<close>, as in
    \<^verbatim>\<open>new Error(m)\<close>; the errors the engine raises itself carry \<open>JUndefined\<close>.
  \<^item> An object is the list of its own properties in insertion order.
\<close>

datatype errkind = Error | TypeError | ReferenceError | URIError | SyntaxError

datatype jsval =
    JUndefined
  | JNull
  | JBool bool
  | JNum int
  | JStr jsstring
  | JArr "jsval list"
  | JObj "(jsstring \<times> jsval) list"
  | JFun nat nat
  | JGuard jsval
  | JError errkind jsval

text \<open>
  What the module calls but does not define is the JavaScript runtime. The conversions
  between text and data are taken as they come, as parameters: \<^verbatim>\<open>JSON.parse\<close> (\<open>Inl e\<close>
  when it throws \<open>e\<close>), the conversion of a string to a number (\<open>None\<close> for NaN), of a
  number to a string, and of a function to its source text.
\<close>

record runtime =
  JSON_parse :: "jsstring \<Rightarrow> jsval + jsval"
  StringToNumber :: "jsstring \<Rightarrow> int option"
  NumberToString :: "int \<Rightarrow> jsstring"
  FunctionToString :: "jsval \<Rightarrow> jsstring"

text \<open>\<^verbatim>\<open>if (v)\<close>, \<^verbatim>\<open>!v\<close>, \<^verbatim>\<open>a && b\<close>: the truth value of a value.\<close>

fun truthy :: "jsval \<Rightarrow> bool" where
  "truthy JUndefined = False"
| "truthy JNull = False"
| "truthy (JBool b) = b"
| "truthy (JNum n) = (n \<noteq> 0)"
| "truthy (JStr s) = (s \<noteq> [])"
| "truthy (JArr xs) = True"
| "truthy (JObj kvs) = True"
| "truthy (JFun k a) = True"
| "truthy (JGuard c) = True"
| "truthy (JError k m) = True"

text \<open>\<^verbatim>\<open>typeof v === 'function'\<close>\<close>

fun is_function :: "jsval \<Rightarrow> bool" where
  "is_function (JFun k a) = True"
| "is_function (JGuard c) = True"
| "is_function v = False"

fun join :: "jsstring \<Rightarrow> jsstring list \<Rightarrow> jsstring" where
  "join sep [] = []"
| "join sep [x] = x"
| "join sep (x # y # ys) = x @ sep @ join sep (y # ys)"

definition errkind_name :: "errkind \<Rightarrow> jsstring" where
  "errkind_name k = (case k of
       Error \<Rightarrow> lit ''Error''
     | TypeError \<Rightarrow> lit ''TypeError''
     | ReferenceError \<Rightarrow> lit ''ReferenceError''
     | URIError \<Rightarrow> lit ''URIError''
     | SyntaxError \<Rightarrow> lit ''SyntaxError'')"

text \<open>
  The conversion of a value to a string: an array joins its elements with commas, with
  nothing for \<^verbatim>\<open>undefined\<close> and \<^verbatim>\<open>null\<close>; a plain object is \<^verbatim>\<open>[object Object]\<close>; an
  error is its name, then its message when it has one.
\<close>

fun ToString :: "runtime \<Rightarrow> jsval \<Rightarrow> jsstring" where
  "ToString rt JUndefined = lit ''undefined''"
| "ToString rt JNull = lit ''null''"
| "ToString rt (JBool b) = lit (if b then ''true'' else ''false'')"
| "ToString rt (JNum n) = NumberToString rt n"
| "ToString rt (JStr s) = s"
| "ToString rt (JArr xs) =
     join (lit '','')
       (map (\<lambda>x. if x = JUndefined \<or> x = JNull then [] else ToString rt x) xs)"
| "ToString rt (JObj kvs) = lit ''[object Object]''"
| "ToString rt (JFun k a) = FunctionToString rt (JFun k a)"
| "ToString rt (JGuard c) = FunctionToString rt (JGuard c)"
| "ToString rt (JError k m) =
     (let msg = (if m = JUndefined then [] else ToString rt m)
      in if msg = [] then errkind_name k else errkind_name k @ lit '': '' @ msg)"

text \<open>
  The conversion to a number, \<open>None\<close> for NaN. An object, an array or a function is
  converted through its string.
\<close>

definition ToNumber :: "runtime \<Rightarrow> jsval \<Rightarrow> int option" where
  "ToNumber rt v = (case v of
       JUndefined \<Rightarrow> None
     | JNull \<Rightarrow> Some 0
     | JBool b \<Rightarrow> Some (if b then 1 else 0)
     | JNum n \<Rightarrow> Some n
     | JStr s \<Rightarrow> StringToNumber rt s
     | _ \<Rightarrow> StringToNumber rt (ToString rt v))"

text \<open>
  \<^verbatim>\<open>v > n\<close> and \<^verbatim>\<open>v < n\<close> against a number literal \<open>n\<close>, the only use the module makes
  of the relational operators: false when \<open>v\<close> converts to NaN.
\<close>

definition js_gt :: "runtime \<Rightarrow> jsval \<Rightarrow> int \<Rightarrow> bool" where
  "js_gt rt v n = (case ToNumber rt v of None \<Rightarrow> False | Some m \<Rightarrow> n < m)"

definition js_lt :: "runtime \<Rightarrow> jsval \<Rightarrow> int \<Rightarrow> bool" where
  "js_lt rt v n = (case ToNumber rt v of None \<Rightarrow> False | Some m \<Rightarrow> m < n)"

subsection \<open>Reading and writing properties\<close>

definition obj_get :: "(jsstring \<times> jsval) list \<Rightarrow> jsstring \<Rightarrow> jsval" where
  "obj_get kvs k = (case map_of kvs k of None \<Rightarrow> JUndefined | Some v \<Rightarrow> v)"

text \<open>\<^verbatim>\<open>o[k] = v\<close>: an existing property keeps its place, a new one goes last.\<close>

fun obj_set :: "(jsstring \<times> jsval) list \<Rightarrow> jsstring \<Rightarrow> jsval \<Rightarrow> (jsstring \<times> jsval) list" where
  "obj_set [] k v = [(k, v)]"
| "obj_set (p # ps) k v = (if fst p = k then (k, v) # ps else p # obj_set ps k v)"

text \<open>
  \<^verbatim>\<open>v.name\<close> for the names the module reads from a decoded payload (\<^verbatim>\<open>status\<close>,
  \<^verbatim>\<open>error-text\<close>, \<^verbatim>\<open>messages\<close>), which no built-in prototype defines. Reading a property
  of \<^verbatim>\<open>undefined\<close> or \<^verbatim>\<open>null\<close> raises a TypeError: \<open>None\<close>.
\<close>

fun get_prop :: "jsval \<Rightarrow> jsstring \<Rightarrow> jsval option" where
  "get_prop JUndefined k = None"
| "get_prop JNull k = None"
| "get_prop (JObj kvs) k = Some (obj_get kvs k)"
| "get_prop v k = Some JUndefined"

text \<open>\<^verbatim>\<open>v.length\<close>\<close>

fun length_of :: "jsval \<Rightarrow> jsval option" where
  "length_of JUndefined = None"
| "length_of JNull = None"
| "length_of (JStr s) = Some (JNum (int (length s)))"
| "length_of (JArr xs) = Some (JNum (int (length xs)))"
| "length_of (JObj kvs) = Some (obj_get kvs (lit ''length''))"
| "length_of (JFun k a) = Some (JNum (int a))"
| "length_of (JGuard c) = Some (JNum 2)"
| "length_of v = Some JUndefined"

text \<open>\<^verbatim>\<open>v[i]\<close> for an index \<open>i\<close>\<close>

fun index_of :: "runtime \<Rightarrow> jsval \<Rightarrow> nat \<Rightarrow> jsval option" where
  "index_of rt JUndefined i = None"
| "index_of rt JNull i = None"
| "index_of rt (JArr xs) i = Some (if i < length xs then xs ! i else JUndefined)"
| "index_of rt (JStr s) i = Some (if i < length s then JStr [s ! i] else JUndefined)"
| "index_of rt (JObj kvs) i = Some (obj_get kvs (NumberToString rt (int i)))"
| "index_of rt v i = Some JUndefined"

section \<open>The library functions the module calls\<close>

subsection \<open>\<^verbatim>\<open>encodeURIComponent\<close>\<close>

text \<open>
  The characters \<^verbatim>\<open>encodeURIComponent\<close> leaves alone: letters, digits and
  \<^verbatim>\<open>- _ . ! ~ * ' ( )\<close>.
\<close>

definition uriUnescaped :: "16 word \<Rightarrow> bool" where
  "uriUnescaped c \<longleftrightarrow>
     (0x41 \<le> c \<and> c \<le> 0x5A) \<or> (0x61 \<le> c \<and> c \<le> 0x7A) \<or> (0x30 \<le> c \<and> c \<le> 0x39) \<or>
     c = 0x2D \<or> c = 0x5F \<or> c = 0x2E \<or> c = 0x21 \<or> c = 0x7E \<or> c = 0x2A \<or>
     c = 0x27 \<or> c = 0x28 \<or> c = 0x29"

text \<open>The octets of a code point in UTF-8.\<close>

definition utf8 :: "nat \<Rightarrow> nat list" where
  "utf8 v =
     (if v < 0x80 then [v]
      else if v < 0x800 then [0xC0 + v div 0x40, 0x80 + v mod 0x40]
      else if v < 0x10000 then
        [0xE0 + v div 0x1000, 0x80 + (v div 0x40) mod 0x40, 0x80 + v mod 0x40]
      else
        [0xF0 + v div 0x40000, 0x80 + (v div 0x1000) mod 0x40,
         0x80 + (v div 0x40) mod 0x40, 0x80 + v mod 0x40])"

definition hexdigit :: "nat \<Rightarrow> 16 word" where
  "hexdigit d = (if d < 10 then 0x30 + of_nat d else 0x41 + of_nat (d - 10))"

text \<open>An octet as \<^verbatim>\<open>%XX\<close>.\<close>

definition percent :: "nat \<Rightarrow> jsstring" where
  "percent b = [0x25, hexdigit (b div 16), hexdigit (b mod 16)]"

text \<open>
  The encoding of a string (ECMAScript's \<^verbatim>\<open>Encode\<close>): an unescaped character stays; any
  other code point is the \<^verbatim>\<open>%XX\<close> of its UTF-8 octets; a surrogate that is not half of a
  pair raises a URIError, \<open>None\<close>.
\<close>

fun Encode :: "jsstring \<Rightarrow> jsstring option" where
  "Encode [] = Some []"
| "Encode (c # cs) =
     (if uriUnescaped c then map_option ((#) c) (Encode cs)
      else if 0xDC00 \<le> c \<and> c \<le> 0xDFFF then None
      else if c < 0xD800 \<or> 0xDBFF < c then
        map_option ((@) (concat (map percent (utf8 (unat c))))) (Encode cs)
      else
        (case cs of
           [] \<Rightarrow> None
         | k # ks \<Rightarrow>
             if k < 0xDC00 \<or> 0xDFFF < k then None
             else
               map_option
                 ((@) (concat (map percent
                    (utf8 ((unat c - 0xD800) * 0x400 + (unat k - 0xDC00) + 0x10000)))))
                 (Encode ks)))"

definition encodeURIComponent :: "runtime \<Rightarrow> jsval \<Rightarrow> jsval + jsstring" where
  "encodeURIComponent rt v =
     (case Encode (ToString rt v) of
        None \<Rightarrow> Inl (JError URIError JUndefined)
      | Some s \<Rightarrow> Inr s)"

subsection \<open>\<^verbatim>\<open>querystring.stringify\<close>\<close>

text \<open>
  Node's \<^verbatim>\<open>querystring.stringify\<close>, whose escape function is \<^verbatim>\<open>encodeURIComponent\<close>:
  each property is \<^verbatim>\<open>escape(key) + '=' + escape(value)\<close>, an array value repeats the key
  for each element, and the fields are joined with \<^verbatim>\<open>&\<close>. A string is taken as it is, a
  number and a boolean by their text, anything else as the empty string.
\<close>

definition stringifyPrimitive :: "runtime \<Rightarrow> jsval \<Rightarrow> jsstring" where
  "stringifyPrimitive rt v = (case v of
       JStr s \<Rightarrow> s
     | JNum n \<Rightarrow> NumberToString rt n
     | JBool b \<Rightarrow> lit (if b then ''true'' else ''false'')
     | _ \<Rightarrow> [])"

definition qs_pair :: "runtime \<Rightarrow> jsstring \<Rightarrow> jsval \<Rightarrow> jsstring option" where
  "qs_pair rt ks v = map_option (\<lambda>e. ks @ lit ''='' @ e) (Encode (stringifyPrimitive rt v))"

definition qs_field :: "runtime \<Rightarrow> jsstring \<times> jsval \<Rightarrow> jsstring option" where
  "qs_field rt kv =
     (case Encode (fst kv) of
        None \<Rightarrow> None
      | Some ks \<Rightarrow>
          (case snd kv of
             JArr xs \<Rightarrow> map_option (join (lit ''&'')) (those (map (qs_pair rt ks) xs))
           | v \<Rightarrow> qs_pair rt ks v))"

definition qs_stringify :: "runtime \<Rightarrow> (jsstring \<times> jsval) list \<Rightarrow> jsval + jsstring" where
  "qs_stringify rt obj =
     (case those (map (qs_field rt) obj) of
        None \<Rightarrow> Inl (JError URIError JUndefined)
      | Some fs \<Rightarrow> Inr (join (lit ''&'') fs))"

subsection \<open>Bytes on the wire\<close>

text \<open>
  \<^verbatim>\<open>request.write(s)\<close> sends a string as UTF-8. The number of octets that takes: one for
  a code unit below \<open>0x80\<close>, two below \<open>0x800\<close>, four for a surrogate pair, three for
  anything else.
\<close>

fun utf8_length :: "jsstring \<Rightarrow> nat" where
  "utf8_length [] = 0"
| "utf8_length (c # cs) =
     (if c < 0x80 then 1 + utf8_length cs
      else if c < 0x800 then 2 + utf8_length cs
      else if 0xD800 \<le> c \<and> c \<le> 0xDBFF then
        (case cs of
           [] \<Rightarrow> 3
         | k # ks \<Rightarrow>
             if 0xDC00 \<le> k \<and> k \<le> 0xDFFF then 4 + utf8_length ks
             else 3 + utf8_length cs)
      else 3 + utf8_length cs)"

section \<open>The module's constants and state\<close>

text \<open>\<^verbatim>\<open>_HEADERS\<close> as the module creates it (lines 34--37).\<close>

definition HEADERS_initial :: "(jsstring \<times> jsval) list" where
  "HEADERS_initial =
     [(lit ''Content-Type'', JStr (lit ''application/x-www-form-urlencoded'')),
      (lit ''accept'', JStr (lit ''application/json''))]"

definition BASE_URL :: jsstring where
  "BASE_URL = lit ''rest.nexmo.com''"

datatype endpoint =
    sms | ussd | tts | accountGetBalance | accountPricing | accountSettings | accountTopUp
  | accountNumbers | numberSearch | numberBuy | numberCancel | numberUpdate
  | searchMessage_ep | searchMessages | searchRejections_ep

fun ENDPOINT :: "endpoint \<Rightarrow> jsstring" where
  "ENDPOINT sms = lit ''/sms/json''"
| "ENDPOINT ussd = lit ''/ussd/json''"
| "ENDPOINT tts = lit ''/tts/json''"
| "ENDPOINT accountGetBalance = lit ''/account/get-balance''"
| "ENDPOINT accountPricing = lit ''/account/get-pricing/outbound''"
| "ENDPOINT accountSettings = lit ''/account/settings''"
| "ENDPOINT accountTopUp = lit ''/account/top-up''"
| "ENDPOINT accountNumbers = lit ''/account/numbers''"
| "ENDPOINT numberSearch = lit ''/number/search''"
| "ENDPOINT numberBuy = lit ''/number/buy''"
| "ENDPOINT numberCancel = lit ''/number/cancel''"
| "ENDPOINT numberUpdate = lit ''/number/update''"
| "ENDPOINT searchMessage_ep = lit ''/search/message''"
| "ENDPOINT searchMessages = lit ''/search/messages''"
| "ENDPOINT searchRejections_ep = lit ''/search/rejections''"

datatype message =
    initializeRequired | keyAndSecretRequired | invalidTextMessage | invalidBody | invalidUdh
  | invalidTitle | invalidUrl | invalidSender | invalidRecipient | invalidCountryCode
  | invalidMsisdn | invalidMessageId | tooManyMessageId | invalidDate | invalidNewSecret
  | invalidCallbackUrl | invalidTransactionId

fun ERROR_MESSAGES :: "message \<Rightarrow> jsstring" where
  "ERROR_MESSAGES initializeRequired =
     lit ''nexmo not initialized, call nexmo.initialize(api_key, api_secret) first before calling any nexmo API''"
| "ERROR_MESSAGES keyAndSecretRequired = lit ''Key and secret cannot be empty''"
| "ERROR_MESSAGES invalidTextMessage = lit ''Invalid text message''"
| "ERROR_MESSAGES invalidBody = lit ''Invalid body value in binary message''"
| "ERROR_MESSAGES invalidUdh = lit ''Invalid udh value in binary message''"
| "ERROR_MESSAGES invalidTitle = lit ''Invalid title in WAP push message''"
| "ERROR_MESSAGES invalidUrl = lit ''Invalid url in WAP push message''"
| "ERROR_MESSAGES invalidSender = lit ''Invalid from address''"
| "ERROR_MESSAGES invalidRecipient = lit ''Invalid to address''"
| "ERROR_MESSAGES invalidCountryCode = lit ''Invalid country code''"
| "ERROR_MESSAGES invalidMsisdn = lit ''Invalid MSISDN passed''"
| "ERROR_MESSAGES invalidMessageId = lit ''Invalid message id(s)''"
| "ERROR_MESSAGES tooManyMessageId = lit ''Too many message id''"
| "ERROR_MESSAGES invalidDate = lit ''Invalid date value''"
| "ERROR_MESSAGES invalidNewSecret = lit ''Invalid new secret''"
| "ERROR_MESSAGES invalidCallbackUrl = lit ''Invalid callback url''"
| "ERROR_MESSAGES invalidTransactionId = lit ''Invalid transaction id''"

text \<open>\<^verbatim>\<open>new Error(_ERROR_MESSAGES.m)\<close>\<close>

definition new_Error :: "message \<Rightarrow> jsval" where
  "new_Error m = JError Error (JStr (ERROR_MESSAGES m))"

text \<open>
  A request handed to \<^verbatim>\<open>http.request\<close> or \<^verbatim>\<open>https.request\<close> (\<open>secure\<close>): the options of
  lines 591--597, what \<^verbatim>\<open>request.write\<close> was given, and the \<^verbatim>\<open>callback\<close> that the event
  handlers of lines 616--655 close over. \<open>headers\<close> is what the shared \<^verbatim>\<open>_HEADERS\<close>
  object holds when the request is created: Node copies the headers out of the options
  then.
\<close>

record request =
  host :: jsstring
  port :: nat
  path :: jsstring
  http_method :: jsval
  headers :: "(jsstring \<times> jsval) list"
  secure :: bool
  written :: "jsstring option"
  listener :: jsval

text \<open>
  The state a call can see or change: the module's variables (lines 99--103), the shared
  \<^verbatim>\<open>_HEADERS\<close> object, the requests issued so far, and the calls made so far to functions
  of the caller, each with its two arguments.
\<close>

record world =
  apiKey :: jsval
  apiSecret :: jsval
  useHttps :: bool
  debugMode :: jsval
  initialized :: bool
  HEADERS :: "(jsstring \<times> jsval) list"
  requests :: "request list"
  calls :: "(jsval \<times> jsval \<times> jsval) list"

definition loaded :: world where
  "loaded = \<lparr>apiKey = JStr [], apiSecret = JStr [], useHttps = True, debugMode = JBool False,
     initialized = False, HEADERS = HEADERS_initial, requests = [], calls = []\<rparr>"

text \<open>
  A call returns the exception it threw, if any, and the state it leaves. \<^verbatim>\<open>log\<close> (lines
  680--692) only writes to the console and is left out.
\<close>

type_synonym outcome = "jsval option \<times> world"

section \<open>The operations\<close>

definition initialize :: "jsval \<Rightarrow> jsval \<Rightarrow> jsval \<Rightarrow> jsval \<Rightarrow> world \<Rightarrow> outcome" where
  "initialize key secret protocol debug w =
     (if \<not> truthy key \<or> \<not> truthy secret then (Some (JStr (ERROR_MESSAGES keyAndSecretRequired)), w)
      else (None, w\<lparr>apiKey := key, apiSecret := secret,
              useHttps := \<not> (protocol = JStr (lit ''http'')),
              debugMode := debug, initialized := True\<rparr>))"

subsection \<open>The guard of \<^verbatim>\<open>sendMessage\<close> and \<^verbatim>\<open>sendErrorResponse\<close>\<close>

text \<open>
  The two conditions of the guard (lines 540 and 543), evaluated left to right with
  \<^verbatim>\<open>&&\<close> stopping at the first falsy operand; \<open>None\<close> when a property read raises a
  TypeError.
\<close>

definition guard_top_level :: "jsval \<Rightarrow> jsval \<Rightarrow> bool option" where
  "guard_top_level err apiResponse =
     (if truthy err then Some False
      else case get_prop apiResponse (lit ''status'') of
             None \<Rightarrow> None
           | Some st \<Rightarrow>
               if \<not> truthy st then Some False
               else map_option truthy (get_prop apiResponse (lit ''error-text'')))"

definition guard_first_message :: "runtime \<Rightarrow> jsval \<Rightarrow> jsval \<Rightarrow> bool option" where
  "guard_first_message rt err apiResponse =
     (if truthy err then Some False
      else case get_prop apiResponse (lit ''status'') of
             None \<Rightarrow> None
           | Some st \<Rightarrow>
               if \<not> truthy st then Some False
               else case get_prop apiResponse (lit ''messages'') of
                      None \<Rightarrow> None
                    | Some ms \<Rightarrow>
                        if \<not> truthy ms then Some False
                        else case index_of rt ms 0 of
                               None \<Rightarrow> None
                             | Some m \<Rightarrow>
                                 map_option (\<lambda>s. js_gt rt s 0) (get_prop m (lit ''status'')))"

text \<open>\<^verbatim>\<open>apiResponse.messages[0]['error-text']\<close>\<close>

definition first_message_text :: "runtime \<Rightarrow> jsval \<Rightarrow> jsval option" where
  "first_message_text rt apiResponse =
     Option.bind (get_prop apiResponse (lit ''messages''))
       (\<lambda>ms. Option.bind (index_of rt ms 0) (\<lambda>m. get_prop m (lit ''error-text'')))"

text \<open>
  \<open>call rt f x y\<close> is the call \<^verbatim>\<open>f(x, y)\<close>. A function of the caller is recorded and
  returns; the guard runs its body (lines 540--549); anything else is not callable, and
  the call raises a TypeError. \<^verbatim>\<open>sendErrorResponse\<close> is lines 666--672.
\<close>

fun call :: "runtime \<Rightarrow> jsval \<Rightarrow> jsval \<Rightarrow> jsval \<Rightarrow> world \<Rightarrow> outcome"
  and sendErrorResponse :: "runtime \<Rightarrow> jsval \<Rightarrow> jsval \<Rightarrow> jsval \<Rightarrow> world \<Rightarrow> outcome" where
  "call rt (JFun k a) x y w = (None, w\<lparr>calls := calls w @ [(JFun k a, x, y)]\<rparr>)"
| "call rt (JGuard callback) err apiResponse w =
     (case guard_top_level err apiResponse of
        None \<Rightarrow> (Some (JError TypeError JUndefined), w)
      | Some True \<Rightarrow>
          (case get_prop apiResponse (lit ''error-text'') of
             None \<Rightarrow> (Some (JError TypeError JUndefined), w)
           | Some t \<Rightarrow> sendErrorResponse rt callback (JError Error t) JUndefined w)
      | Some False \<Rightarrow>
          (case guard_first_message rt err apiResponse of
             None \<Rightarrow> (Some (JError TypeError JUndefined), w)
           | Some True \<Rightarrow>
               (case first_message_text rt apiResponse of
                  None \<Rightarrow> (Some (JError TypeError JUndefined), w)
                | Some t \<Rightarrow> sendErrorResponse rt callback (JError Error t) JUndefined w)
           | Some False \<Rightarrow>
               if truthy callback then call rt callback err apiResponse w else (None, w)))"
| "call rt v x y w = (Some (JError TypeError JUndefined), w)"
| "sendErrorResponse rt callback err returnData w =
     (if truthy callback then call rt callback err returnData w else (Some err, w))"

text \<open>
  Lines 268, 286, 304 and 322 call \<^verbatim>\<open>sendError\<close>. The module declares no such function
  (the one it declares is \<^verbatim>\<open>sendErrorResponse\<close>), so evaluating the call raises a
  ReferenceError before any argument is looked at.
\<close>

definition sendError :: "jsval \<Rightarrow> jsval \<Rightarrow> world \<Rightarrow> outcome" where
  "sendError callback err w = (Some (JError ReferenceError JUndefined), w)"

subsection \<open>\<^verbatim>\<open>sendRequest\<close>: building the request\<close>

text \<open>
  Lines 568--577: the credentials, then the parameters when there are any, both through
  \<^verbatim>\<open>querystring.stringify\<close>. Every caller passes \<^verbatim>\<open>null\<close> (\<open>None\<close>) or an object it has
  just built as \<^verbatim>\<open>data\<close>.
\<close>

definition dataString ::
  "runtime \<Rightarrow> world \<Rightarrow> (jsstring \<times> jsval) list option \<Rightarrow> jsval + jsstring" where
  "dataString rt w data =
     (case qs_stringify rt [(lit ''api_key'', apiKey w), (lit ''api_secret'', apiSecret w)] of
        Inl e \<Rightarrow> Inl e
      | Inr c \<Rightarrow>
          (case data of
             None \<Rightarrow> Inr c
           | Some d \<Rightarrow>
               (case qs_stringify rt d of
                  Inl e \<Rightarrow> Inl e
                | Inr s \<Rightarrow> Inr (c @ lit ''&'' @ s))))"

text \<open>
  Lines 563--613. A caller with three arguments passes its callback as \<^verbatim>\<open>method\<close> and
  leaves \<^verbatim>\<open>callback\<close> undefined. For a POST the shared \<^verbatim>\<open>_HEADERS\<close> object itself is
  written to (line 586), and the request gets whatever that object holds.
\<close>

definition sendRequest ::
  "runtime \<Rightarrow> jsstring \<Rightarrow> (jsstring \<times> jsval) list option \<Rightarrow> jsval \<Rightarrow> jsval \<Rightarrow> world \<Rightarrow> outcome" where
  "sendRequest rt endpoint data method callback w =
     (if \<not> initialized w then (Some (JStr (ERROR_MESSAGES initializeRequired)), w)
      else case dataString rt w data of
        Inl e \<Rightarrow> (Some e, w)
      | Inr ds \<Rightarrow>
          (let callback' = (if is_function method then method else callback);
               method' = (if is_function method then JStr (lit ''GET'') else method);
               post = (method' = JStr (lit ''POST''));
               hs = (if post then obj_set (HEADERS w) (lit ''Content-Length'') (JNum (int (length ds)))
                     else HEADERS w);
               r = \<lparr>host = BASE_URL,
                    port = (if useHttps w then 443 else 80),
                    path = (if post then endpoint else endpoint @ lit ''?'' @ ds),
                    http_method = method',
                    headers = hs,
                    secure = useHttps w,
                    written = (if post then Some ds else None),
                    listener = callback'\<rparr>
           in (None, w\<lparr>HEADERS := hs, requests := requests w @ [r]\<rparr>)))"

text \<open>Lines 531--552.\<close>

definition sendMessage ::
  "runtime \<Rightarrow> (jsstring \<times> jsval) list \<Rightarrow> jsstring \<Rightarrow> jsval \<Rightarrow> world \<Rightarrow> outcome" where
  "sendMessage rt data endpoint callback w =
     (if \<not> truthy (obj_get data (lit ''from'')) then
        sendErrorResponse rt callback (new_Error invalidSender) JUndefined w
      else if \<not> truthy (obj_get data (lit ''to'')) then
        sendErrorResponse rt callback (new_Error invalidRecipient) JUndefined w
      else sendRequest rt endpoint (Some data) (JStr (lit ''POST'')) (JGuard callback) w)"

subsection \<open>The public operations\<close>

definition sendTextMessage :: "runtime \<Rightarrow> jsval \<Rightarrow> jsval \<Rightarrow> jsval \<Rightarrow> jsval \<Rightarrow> world \<Rightarrow> outcome" where
  "sendTextMessage rt sender recipient msg callback w =
     (if \<not> truthy msg then
        sendErrorResponse rt callback (new_Error invalidTextMessage) JUndefined w
      else sendMessage rt
             [(lit ''from'', sender), (lit ''to'', recipient),
              (lit ''type'', JStr (lit ''unicode'')), (lit ''text'', msg)]
             (ENDPOINT sms) callback w)"

definition sendBinaryMessage ::
  "runtime \<Rightarrow> jsval \<Rightarrow> jsval \<Rightarrow> jsval \<Rightarrow> jsval \<Rightarrow> jsval \<Rightarrow> world \<Rightarrow> outcome" where
  "sendBinaryMessage rt sender recipient binary udh callback w =
     (if \<not> truthy binary then
        sendErrorResponse rt callback (new_Error invalidBody) JUndefined w
      else if \<not> truthy udh then
        sendErrorResponse rt callback (new_Error invalidUdh) JUndefined w
      else sendMessage rt
             [(lit ''from'', sender), (lit ''to'', recipient),
              (lit ''type'', JStr (lit ''binary'')), (lit ''body'', binary), (lit ''udh'', udh)]
             (ENDPOINT sms) callback w)"

definition sendWapPushMessage ::
  "runtime \<Rightarrow> jsval \<Rightarrow> jsval \<Rightarrow> jsval \<Rightarrow> jsval \<Rightarrow> jsval \<Rightarrow> jsval \<Rightarrow> world \<Rightarrow> outcome" where
  "sendWapPushMessage rt sender recipient title url validity callback w =
     (if \<not> truthy title then
        sendErrorResponse rt callback (new_Error invalidTitle) JUndefined w
      else if \<not> truthy url then
        sendErrorResponse rt callback (new_Error invalidUrl) JUndefined w
      else
        (let callback' = (if is_function validity then validity else callback);
             validity' = (if is_function validity then JNum 172800000 else validity)
         in case encodeURIComponent rt url of
              Inl e \<Rightarrow> (Some e, w)
            | Inr u \<Rightarrow>
                sendMessage rt
                  [(lit ''from'', sender), (lit ''to'', recipient),
                   (lit ''type'', JStr (lit ''wappush'')), (lit ''title'', title),
                   (lit ''url'', JStr u), (lit ''validity'', validity')]
                  (ENDPOINT sms) callback' w))"

definition sendTTSMessage :: "runtime \<Rightarrow> jsval \<Rightarrow> jsval \<Rightarrow> jsval \<Rightarrow> jsval \<Rightarrow> world \<Rightarrow> outcome" where
  "sendTTSMessage rt sender recipient msg callback w =
     (if \<not> truthy msg then
        sendErrorResponse rt callback (new_Error invalidTextMessage) JUndefined w
      else sendMessage rt
             [(lit ''from'', sender), (lit ''to'', recipient), (lit ''text'', msg)]
             (ENDPOINT tts) callback w)"

definition getBalance :: "runtime \<Rightarrow> jsval \<Rightarrow> world \<Rightarrow> outcome" where
  "getBalance rt callback w = sendRequest rt (ENDPOINT accountGetBalance) None callback JUndefined w"

text \<open>\<^verbatim>\<open>!countryCode || countryCode.length !== 2\<close>\<close>

definition bad_country :: "jsval \<Rightarrow> bool" where
  "bad_country countryCode \<longleftrightarrow> \<not> truthy countryCode \<or> length_of countryCode \<noteq> Some (JNum 2)"

text \<open>\<^verbatim>\<open>!msisdn || msisdn.length < 10\<close>\<close>

definition bad_msisdn :: "runtime \<Rightarrow> jsval \<Rightarrow> bool" where
  "bad_msisdn rt msisdn \<longleftrightarrow>
     \<not> truthy msisdn \<or> (case length_of msisdn of None \<Rightarrow> False | Some l \<Rightarrow> js_lt rt l 10)"

definition getPricing :: "runtime \<Rightarrow> jsval \<Rightarrow> jsval \<Rightarrow> world \<Rightarrow> outcome" where
  "getPricing rt countryCode callback w =
     (if bad_country countryCode then
        sendErrorResponse rt callback (new_Error invalidCountryCode) JUndefined w
      else sendRequest rt (ENDPOINT accountPricing) (Some [(lit ''country'', countryCode)])
             callback JUndefined w)"

definition updateSecret :: "runtime \<Rightarrow> jsval \<Rightarrow> jsval \<Rightarrow> world \<Rightarrow> outcome" where
  "updateSecret rt newSecret callback w =
     (if \<not> truthy newSecret \<or>
         (case length_of newSecret of None \<Rightarrow> False | Some l \<Rightarrow> js_gt rt l 8) then
        sendError callback (new_Error invalidNewSecret) w
      else case encodeURIComponent rt newSecret of
             Inl e \<Rightarrow> (Some e, w)
           | Inr s \<Rightarrow>
               sendRequest rt (ENDPOINT accountSettings) (Some [(lit ''newSecret'', JStr s)])
                 (JStr (lit ''POST'')) callback w)"

definition updateMoCallBackUrl :: "runtime \<Rightarrow> jsval \<Rightarrow> jsval \<Rightarrow> world \<Rightarrow> outcome" where
  "updateMoCallBackUrl rt newUrl callback w =
     (if \<not> truthy newUrl then sendError callback (new_Error invalidCallbackUrl) w
      else case encodeURIComponent rt newUrl of
             Inl e \<Rightarrow> (Some e, w)
           | Inr s \<Rightarrow>
               sendRequest rt (ENDPOINT accountSettings) (Some [(lit ''moCallBackUrl'', JStr s)])
                 (JStr (lit ''POST'')) callback w)"

definition updateDrCallBackUrl :: "runtime \<Rightarrow> jsval \<Rightarrow> jsval \<Rightarrow> world \<Rightarrow> outcome" where
  "updateDrCallBackUrl rt newUrl callback w =
     (if \<not> truthy newUrl then sendError callback (new_Error invalidCallbackUrl) w
      else case encodeURIComponent rt newUrl of
             Inl e \<Rightarrow> (Some e, w)
           | Inr s \<Rightarrow>
               sendRequest rt (ENDPOINT accountSettings) (Some [(lit ''drCallBackUrl'', JStr s)])
                 (JStr (lit ''POST'')) callback w)"

definition getTopUp :: "runtime \<Rightarrow> jsval \<Rightarrow> jsval \<Rightarrow> world \<Rightarrow> outcome" where
  "getTopUp rt transactionId callback w =
     (if \<not> truthy transactionId then sendError callback (new_Error invalidTransactionId) w
      else sendRequest rt (ENDPOINT accountTopUp) (Some [(lit ''trx'', transactionId)])
             (JStr (lit ''POST'')) callback w)"

definition getNumbers :: "runtime \<Rightarrow> jsval \<Rightarrow> world \<Rightarrow> outcome" where
  "getNumbers rt callback w = sendRequest rt (ENDPOINT accountNumbers) None callback JUndefined w"

text \<open>
  Lines 350--376: the optional arguments are given up to the first one that is a
  function, which is the callback.
\<close>

definition searchNumbers ::
  "runtime \<Rightarrow> jsval \<Rightarrow> jsval \<Rightarrow> jsval \<Rightarrow> jsval \<Rightarrow> jsval \<Rightarrow> world \<Rightarrow> outcome" where
  "searchNumbers rt countryCode pattern index size' callback w =
     (if bad_country countryCode then
        sendErrorResponse rt callback (new_Error invalidCountryCode) JUndefined w
      else
        (let d0 = [(lit ''country'', countryCode)] in
         if is_function pattern then sendRequest rt (ENDPOINT numberSearch) (Some d0) pattern JUndefined w
         else
           (let d1 = obj_set d0 (lit ''pattern'') pattern in
            if is_function index then sendRequest rt (ENDPOINT numberSearch) (Some d1) index JUndefined w
            else
              (let d2 = obj_set d1 (lit ''index'') index in
               if is_function size' then sendRequest rt (ENDPOINT numberSearch) (Some d2) size' JUndefined w
               else sendRequest rt (ENDPOINT numberSearch)
                      (Some (obj_set d2 (lit ''size'') size')) callback JUndefined w))))"

definition buyNumber :: "runtime \<Rightarrow> jsval \<Rightarrow> jsval \<Rightarrow> jsval \<Rightarrow> world \<Rightarrow> outcome" where
  "buyNumber rt countryCode msisdn callback w =
     (if bad_country countryCode then
        sendErrorResponse rt callback (new_Error invalidCountryCode) JUndefined w
      else if bad_msisdn rt msisdn then
        sendErrorResponse rt callback (new_Error invalidMsisdn) JUndefined w
      else sendRequest rt (ENDPOINT numberBuy)
             (Some [(lit ''country'', countryCode), (lit ''msisdn'', msisdn)])
             (JStr (lit ''POST'')) callback w)"

definition cancelNumber :: "runtime \<Rightarrow> jsval \<Rightarrow> jsval \<Rightarrow> jsval \<Rightarrow> world \<Rightarrow> outcome" where
  "cancelNumber rt countryCode msisdn callback w =
     (if bad_country countryCode then
        sendErrorResponse rt callback (new_Error invalidCountryCode) JUndefined w
      else if bad_msisdn rt msisdn then
        sendErrorResponse rt callback (new_Error invalidMsisdn) JUndefined w
      else sendRequest rt (ENDPOINT numberCancel)
             (Some [(lit ''country'', countryCode), (lit ''msisdn'', msisdn)])
             (JStr (lit ''POST'')) callback w)"

definition updateNumberCallback ::
  "jsval \<Rightarrow> jsval \<Rightarrow> jsval \<Rightarrow> jsval \<Rightarrow> jsval \<Rightarrow> world \<Rightarrow> outcome" where
  "updateNumberCallback countryCode msisdn newUrl sysType callback w =
     (Some (JStr (lit ''Not yet implemented!'')), w)"

definition searchMessage :: "runtime \<Rightarrow> jsval \<Rightarrow> jsval \<Rightarrow> world \<Rightarrow> outcome" where
  "searchMessage rt messageId callback w =
     (if \<not> truthy messageId then
        sendErrorResponse rt callback (new_Error invalidMessageId) JUndefined w
      else sendRequest rt (ENDPOINT searchMessage_ep) (Some [(lit ''id'', messageId)])
             callback JUndefined w)"

text \<open>
  Lines 459--475. The loop pushes \<^verbatim>\<open>messageIds[idx]\<close> while \<^verbatim>\<open>idx < len\<close>; it runs at most
  ten times, since a larger length has been refused, and not at all when the length is
  not a number.
\<close>

definition searchMessageByIds :: "runtime \<Rightarrow> jsval \<Rightarrow> jsval \<Rightarrow> world \<Rightarrow> outcome" where
  "searchMessageByIds rt messageIds callback w =
     (if \<not> truthy messageIds \<or> length_of messageIds = Some (JNum 0) then
        sendErrorResponse rt callback (new_Error invalidMessageId) JUndefined w
      else case length_of messageIds of
        None \<Rightarrow> (Some (JError TypeError JUndefined), w)
      | Some len \<Rightarrow>
          if js_gt rt len 10 then
            sendErrorResponse rt callback (new_Error tooManyMessageId) JUndefined w
          else
            (case those (map (index_of rt messageIds)
                     [0 ..< (case ToNumber rt len of None \<Rightarrow> 0 | Some n \<Rightarrow> nat n)]) of
               None \<Rightarrow> (Some (JError TypeError JUndefined), w)
             | Some ids \<Rightarrow>
                 sendRequest rt (ENDPOINT searchMessages) (Some [(lit ''ids'', JArr ids)])
                   callback JUndefined w))"

definition searchMessagesByRecipient :: "runtime \<Rightarrow> jsval \<Rightarrow> jsval \<Rightarrow> jsval \<Rightarrow> world \<Rightarrow> outcome" where
  "searchMessagesByRecipient rt date to' callback w =
     (if \<not> truthy date then
        sendErrorResponse rt callback (new_Error invalidDate) JUndefined w
      else if \<not> truthy to' then
        sendErrorResponse rt callback (new_Error invalidRecipient) JUndefined w
      else sendRequest rt (ENDPOINT searchMessages) (Some [(lit ''date'', date), (lit ''to'', to')])
             callback JUndefined w)"

definition searchRejections :: "runtime \<Rightarrow> jsval \<Rightarrow> jsval \<Rightarrow> jsval \<Rightarrow> world \<Rightarrow> outcome" where
  "searchRejections rt date to' callback w =
     (if \<not> truthy date then
        sendErrorResponse rt callback (new_Error invalidDate) JUndefined w
      else
        (let d0 = [(lit ''date'', date)] in
         if is_function to' then sendRequest rt (ENDPOINT searchRejections_ep) (Some d0) to' JUndefined w
         else if truthy to' then
           sendRequest rt (ENDPOINT searchRejections_ep) (Some (obj_set d0 (lit ''to'') to'))
             callback JUndefined w
         else sendRequest rt (ENDPOINT searchRejections_ep) (Some d0) callback JUndefined w))"

text \<open>
  The object the module exports (lines 694--716), without \<^verbatim>\<open>init\<close>: a call of one of its
  operations, an argument left out being \<^verbatim>\<open>undefined\<close>.
\<close>

datatype invocation =
    SendTextMessage jsval jsval jsval jsval
  | SendBinaryMessage jsval jsval jsval jsval jsval
  | SendWapPushMessage jsval jsval jsval jsval jsval jsval
  | SendTTSMessage jsval jsval jsval jsval
  | GetBalance jsval
  | GetPricing jsval jsval
  | UpdateSecret jsval jsval
  | UpdateMoCallBackUrl jsval jsval
  | UpdateDrCallBackUrl jsval jsval
  | GetTopUp jsval jsval
  | GetNumbers jsval
  | SearchNumbers jsval jsval jsval jsval jsval
  | BuyNumber jsval jsval jsval
  | CancelNumber jsval jsval jsval
  | UpdateNumberCallback jsval jsval jsval jsval jsval
  | SearchMessage jsval jsval
  | SearchMessageByIds jsval jsval
  | SearchMessagesByRecipient jsval jsval jsval
  | SearchRejections jsval jsval jsval

fun invoke :: "runtime \<Rightarrow> invocation \<Rightarrow> world \<Rightarrow> outcome" where
  "invoke rt (SendTextMessage a b c d) w = sendTextMessage rt a b c d w"
| "invoke rt (SendBinaryMessage a b c d e) w = sendBinaryMessage rt a b c d e w"
| "invoke rt (SendWapPushMessage a b c d e f) w = sendWapPushMessage rt a b c d e f w"
| "invoke rt (SendTTSMessage a b c d) w = sendTTSMessage rt a b c d w"
| "invoke rt (GetBalance a) w = getBalance rt a w"
| "invoke rt (GetPricing a b) w = getPricing rt a b w"
| "invoke rt (UpdateSecret a b) w = updateSecret rt a b w"
| "invoke rt (UpdateMoCallBackUrl a b) w = updateMoCallBackUrl rt a b w"
| "invoke rt (UpdateDrCallBackUrl a b) w = updateDrCallBackUrl rt a b w"
| "invoke rt (GetTopUp a b) w = getTopUp rt a b w"
| "invoke rt (GetNumbers a) w = getNumbers rt a w"
| "invoke rt (SearchNumbers a b c d e) w = searchNumbers rt a b c d e w"
| "invoke rt (BuyNumber a b c) w = buyNumber rt a b c w"
| "invoke rt (CancelNumber a b c) w = cancelNumber rt a b c w"
| "invoke rt (UpdateNumberCallback a b c d e) w = updateNumberCallback a b c d e w"
| "invoke rt (SearchMessage a b) w = searchMessage rt a b w"
| "invoke rt (SearchMessageByIds a b) w = searchMessageByIds rt a b w"
| "invoke rt (SearchMessagesByRecipient a b c) w = searchMessagesByRecipient rt a b c w"
| "invoke rt (SearchRejections a b c) w = searchRejections rt a b c w"

subsection \<open>\<^verbatim>\<open>sendRequest\<close>: the event handlers\<close>

text \<open>
  The events the transport delivers to one request: \<^verbatim>\<open>'response'\<close> and \<^verbatim>\<open>'error'\<close> on the
  request, \<^verbatim>\<open>'data'\<close>, \<^verbatim>\<open>'end'\<close> and \<^verbatim>\<open>'close'\<close> on its response, with the value each
  event carries.
\<close>

datatype event = OnResponse | OnData jsstring | OnEnd | OnClose jsval | OnError jsval

text \<open>
  What the handlers of one \<^verbatim>\<open>sendRequest\<close> call share (lines 615--655): the \<^verbatim>\<open>callback\<close>
  they close over, the \<^verbatim>\<open>buffer\<close>, and whether the \<^verbatim>\<open>'response'\<close> handler has run, which
  is when the handlers on the response are registered.
\<close>

record exchange =
  continuation :: jsval
  buffer :: jsstring
  responded :: bool

definition opened :: "request \<Rightarrow> exchange" where
  "opened r = \<lparr>continuation = listener r, buffer = [], responded = False\<rparr>"

text \<open>
  One event, through the handler registered for it. The \<^verbatim>\<open>'end'\<close> handler (lines 623--642)
  calls the callback only if there is one, with \<^verbatim>\<open>null\<close> and the decoded buffer, or with
  the error of \<^verbatim>\<open>JSON.parse\<close> and \<^verbatim>\<open>responseData\<close>, which was never assigned. The
  \<^verbatim>\<open>'close'\<close> and \<^verbatim>\<open>'error'\<close> handlers (lines 644--655) call \<^verbatim>\<open>callback(e)\<close>.
\<close>

fun emit :: "runtime \<Rightarrow> event \<Rightarrow> exchange \<Rightarrow> world \<Rightarrow> jsval option \<times> exchange \<times> world" where
  "emit rt OnResponse x w = (None, x\<lparr>responded := True\<rparr>, w)"
| "emit rt (OnData chunk) x w =
     (None, if responded x then x\<lparr>buffer := buffer x @ chunk\<rparr> else x, w)"
| "emit rt OnEnd x w =
     (if responded x \<and> truthy (continuation x) then
        (case JSON_parse rt (buffer x) of
           Inr responseData \<Rightarrow>
             (case call rt (continuation x) JNull responseData w of (t, w') \<Rightarrow> (t, x, w'))
         | Inl parserError \<Rightarrow>
             (case call rt (continuation x) parserError JUndefined w of (t, w') \<Rightarrow> (t, x, w')))
      else (None, x, w))"
| "emit rt (OnClose e) x w =
     (if responded x then
        (case call rt (continuation x) e JUndefined w of (t, w') \<Rightarrow> (t, x, w'))
      else (None, x, w))"
| "emit rt (OnError e) x w =
     (case call rt (continuation x) e JUndefined w of (t, w') \<Rightarrow> (t, x, w'))"

text \<open>
  A sequence of events, in order. An exception thrown inside a handler is caught by
  nobody: delivery stops there.
\<close>

fun deliver :: "runtime \<Rightarrow> event list \<Rightarrow> exchange \<Rightarrow> world \<Rightarrow> jsval option \<times> exchange \<times> world" where
  "deliver rt [] x w = (None, x, w)"
| "deliver rt (ev # evs) x w =
     (case emit rt ev x w of
        (Some e, x', w') \<Rightarrow> (Some e, x', w')
      | (None, x', w') \<Rightarrow> deliver rt evs x' w')"

text \<open>
  An operation followed by the events of the request it issued, if it issued one: what
  was thrown, by the operation or by a handler, and the state at the end.
\<close>

definition perform :: "runtime \<Rightarrow> (world \<Rightarrow> outcome) \<Rightarrow> event list \<Rightarrow> world \<Rightarrow> outcome" where
  "perform rt operation evs w =
     (case operation w of
        (Some e, w') \<Rightarrow> (Some e, w')
      | (None, w') \<Rightarrow>
          if length (requests w') = length (requests w) then (None, w')
          else (case deliver rt evs (opened (last (requests w'))) w' of (t, x, w'') \<Rightarrow> (t, w'')))"

subsection \<open>Event sequences\<close>





subsection \<open>Runtimes for the worked examples\<close>

text \<open>
  \<open>decoding p\<close> is a runtime in which the response text decodes to the payload \<open>p\<close>, and
  \<open>rejecting e\<close> one in which decoding it throws \<open>e\<close>. Neither knows a string that is a
  number, and both print every number and function as the empty text.
\<close>

definition decoding :: "jsval \<Rightarrow> runtime" where
  "decoding p = \<lparr>JSON_parse = (\<lambda>s. Inr p), StringToNumber = (\<lambda>s. None),
     NumberToString = (\<lambda>n. []), FunctionToString = (\<lambda>f. [])\<rparr>"

definition rejecting :: "jsval \<Rightarrow> runtime" where
  "rejecting e = \<lparr>JSON_parse = (\<lambda>s. Inl e), StringToNumber = (\<lambda>s. None),
     NumberToString = (\<lambda>n. []), FunctionToString = (\<lambda>f. [])\<rparr>"

text \<open>A client initialized with a key and a secret, over the default secure transport.\<close>

definition client :: world where
  "client = snd (initialize (JStr (lit ''key'')) (JStr (lit ''secret'')) JUndefined JUndefined loaded)"

subsection \<open>URL-encoded text\<close>

text \<open>
  The characters of a URL-encoded form: the unescaped ones and \<^verbatim>\<open>%\<close>, \<^verbatim>\<open>=\<close>, \<^verbatim>\<open>&\<close>.
\<close>

definition form_char :: "16 word \<Rightarrow> bool" where
  "form_char c \<longleftrightarrow> uriUnescaped c \<or> c = 0x25 \<or> c = 0x3D \<or> c = 0x26"

section \<open>Lemmas\<close>

subsection \<open>Evaluating the worked examples\<close>

lemma client_eq: "client = \<lparr>apiKey = JStr (lit ''key''), apiSecret = JStr (lit ''secret''), useHttps = True,
   debugMode = JUndefined, initialized = True, HEADERS = HEADERS_initial, requests = [], calls = []\<rparr>"
  by (simp add: client_def initialize_def loaded_def lit_def)

lemmas eval_defs = sendTextMessage_def sendMessage_def sendRequest_def dataString_def qs_stringify_def
  qs_field_def qs_pair_def stringifyPrimitive_def uriUnescaped_def obj_get_def perform_def
  opened_def decoding_def rejecting_def guard_top_level_def guard_first_message_def first_message_text_def
  getBalance_def Let_def

subsection \<open>What a call leaves alone\<close>


lemma call_others:
  "(snd (call rt f x y w))\<lparr>calls := cs\<rparr> = w\<lparr>calls := cs\<rparr>"
proof (induction f arbitrary: x y w)
  case (JGuard c)
  then show ?case
    by (simp split: option.split bool.split)
qed simp_all

lemma call_requests [simp]: "requests (snd (call rt f x y w)) = requests w"
proof -
  have "requests ((snd (call rt f x y w))\<lparr>calls := []\<rparr>) = requests (w\<lparr>calls := []\<rparr>)"
    by (simp only: call_others)
  then show ?thesis by simp
qed

lemma sendErrorResponse_requests [simp]:
  "requests (snd (sendErrorResponse rt f x y w)) = requests w"
  by simp
















lemma deliver_data:
  "responded x \<Longrightarrow>
   deliver rt (map OnData chunks @ evs) x w = deliver rt evs (x\<lparr>buffer := buffer x @ concat chunks\<rparr>) w"
  by (induction chunks arbitrary: x) simp_all

subsection \<open>What \<^verbatim>\<open>sendRequest\<close> issues\<close>

lemma map_of_obj_set: "map_of (obj_set h k v) k = Some v"
  by (induction h k v rule: obj_set.induct) auto

lemma sendRequest_uninitialized:
  "\<not> initialized w \<Longrightarrow>
   sendRequest rt endpoint d m callback w = (Some (JStr (ERROR_MESSAGES initializeRequired)), w)"
  by (simp add: sendRequest_def)

lemma sendRequest_issued:
  assumes "sendRequest rt endpoint d m callback w = (None, w')"
  shows "\<exists>ds. dataString rt w d = Inr ds \<and> initialized w \<and>
     w' = w\<lparr>HEADERS := (if m = JStr (lit ''POST'') then obj_set (HEADERS w) (lit ''Content-Length'') (JNum (int (length ds))) else HEADERS w),
            requests := requests w @
              [\<lparr>host = BASE_URL, port = (if useHttps w then 443 else 80),
                path = (if m = JStr (lit ''POST'') then endpoint else endpoint @ lit ''?'' @ ds),
                http_method = (if is_function m then JStr (lit ''GET'') else m),
                headers = (if m = JStr (lit ''POST'') then obj_set (HEADERS w) (lit ''Content-Length'') (JNum (int (length ds))) else HEADERS w),
                secure = useHttps w,
                written = (if m = JStr (lit ''POST'') then Some ds else None),
                listener = (if is_function m then m else callback)\<rparr>]\<rparr>"
proof -
  have g: "JStr (lit ''GET'') \<noteq> JStr (lit ''POST'')" by (simp add: lit_def)
  from assms g show ?thesis
    by (cases "is_function m") (auto simp: sendRequest_def Let_def split: if_splits sum.splits)
qed

lemma sendRequest_requests_uninitialized [simp]:
  "\<not> initialized w \<Longrightarrow> requests (snd (sendRequest rt endpoint d m callback w)) = requests w"
  by (simp add: sendRequest_uninitialized)

lemma call_requests_initialized [simp]:
  "requests (snd (call rt f x y (w\<lparr>initialized := b\<rparr>))) = requests w"
  by (simp only: call_requests) simp

lemmas operation_defs = sendTextMessage_def sendBinaryMessage_def sendWapPushMessage_def
  sendTTSMessage_def getBalance_def getPricing_def updateSecret_def updateMoCallBackUrl_def
  updateDrCallBackUrl_def getTopUp_def getNumbers_def searchNumbers_def buyNumber_def
  cancelNumber_def updateNumberCallback_def searchMessage_def searchMessageByIds_def
  searchMessagesByRecipient_def searchRejections_def sendMessage_def sendError_def

subsection \<open>What the encoders produce\<close>

lemma form_char_ascii: "form_char c \<Longrightarrow> c < 0x80"
  unfolding form_char_def uriUnescaped_def
  by (auto simp: word_le_nat_alt word_less_nat_alt)

lemma hexdigit_form: "d < 16 \<Longrightarrow> form_char (hexdigit d)"
proof -
  assume "d < 16"
  then have "d = 0 \<or> d = 1 \<or> d = 2 \<or> d = 3 \<or> d = 4 \<or> d = 5 \<or> d = 6 \<or> d = 7
    \<or> d = 8 \<or> d = 9 \<or> d = 10 \<or> d = 11 \<or> d = 12 \<or> d = 13 \<or> d = 14 \<or> d = 15"
    by arith
  then show ?thesis
    by (elim disjE) (simp_all add: hexdigit_def form_char_def uriUnescaped_def)
qed

lemma percent_form: "b < 256 \<Longrightarrow> list_all form_char (percent b)"
proof -
  assume b: "b < 256"
  have p: "form_char 0x25" by (simp add: form_char_def)
  from b have "b div 16 < 16" "b mod 16 < 16" by simp_all
  with p show ?thesis by (simp add: percent_def hexdigit_form)
qed

lemma utf8_octets: "v < 0x110000 \<Longrightarrow> list_all (\<lambda>b. b < 256) (utf8 v)"
  by (simp add: utf8_def, arith)

lemma percent_all_form: "list_all (\<lambda>b. b < 256) bs \<Longrightarrow> list_all form_char (concat (map percent bs))"
  by (induction bs) (simp_all add: percent_form)

lemma percent_utf8_form: "v < 0x110000 \<Longrightarrow> list_all form_char (concat (map percent (utf8 v)))"
  by (intro percent_all_form utf8_octets)


lemma Encode_form: "Encode s = Some t \<Longrightarrow> list_all form_char t"
proof (induction s arbitrary: t rule: Encode.induct)
  case 1
  then show ?case by simp
next
  case (2 c cs)
  show ?case
  proof (cases "uriUnescaped c")
    case True
    with "2.prems" obtain t' where "Encode cs = Some t'" "t = c # t'" by auto
    with "2.IH"(1) [OF True] True show ?thesis by (simp add: form_char_def)
  next
    case False
    note nu = False
    show ?thesis
    proof (cases "0xDC00 \<le> c \<and> c \<le> 0xDFFF")
      case True
      with nu "2.prems" show ?thesis by simp
    next
      case False
      note nl = False
      show ?thesis
      proof (cases "c < 0xD800 \<or> 0xDBFF < c")
        case True
        with nu nl "2.prems" obtain t' where
          t': "Encode cs = Some t'" "t = concat (map percent (utf8 (unat c))) @ t'"
          by auto
        have "unat c < 0x110000" using unsigned_less [of c, where ?'a = nat] by simp
        with t' "2.IH"(2) [OF nu nl True t'(1)] show ?thesis
          by (simp add: percent_utf8_form)
      next
        case False
        note hi = False
        from nu nl hi "2.prems" obtain k ks where cs: "cs = k # ks"
          by (cases cs) auto
        from nu nl hi "2.prems" cs have lo: "\<not> (k < 0xDC00 \<or> 0xDFFF < k)"
          by (auto split: if_splits)
        with nu nl hi "2.prems" cs obtain t' where
          t': "Encode ks = Some t'"
            "t = concat (map percent (utf8 ((unat c - 0xD800) * 0x400 + (unat k - 0xDC00) + 0x10000))) @ t'"
          by auto
        from hi have "unat c \<le> 0xDBFF" by (simp add: word_le_nat_alt word_less_nat_alt)
        moreover from lo have "unat k \<le> 0xDFFF" by (simp add: word_le_nat_alt word_less_nat_alt)
        ultimately have "(unat c - 0xD800) * 0x400 + (unat k - 0xDC00) + 0x10000 < 0x110000"
          by arith
        with t' "2.IH"(3) [OF nu nl hi cs lo t'(1)] show ?thesis
          by (simp add: percent_utf8_form)
      qed
    qed
  qed
qed

lemma join_form:
  "form_char sep \<Longrightarrow> list_all (list_all form_char) xs \<Longrightarrow> list_all form_char (join [sep] xs)"
  by (induction "[sep]" xs rule: join.induct) simp_all

lemma those_all:
  "those xs = Some ys \<Longrightarrow> (\<And>x y. x \<in> set xs \<Longrightarrow> x = Some y \<Longrightarrow> P y) \<Longrightarrow> list_all P ys"
  by (induction xs arbitrary: ys) (auto split: option.splits)

lemma lit_amp: "lit ''&'' = [0x26]" and lit_eq: "lit ''='' = [0x3D]"
  by (simp_all add: lit_def)

lemma qs_pair_form:
  "list_all form_char ks \<Longrightarrow> qs_pair rt ks v = Some t \<Longrightarrow> list_all form_char t"
  by (auto simp: qs_pair_def lit_eq form_char_def dest: Encode_form)

lemma qs_field_form: "qs_field rt kv = Some t \<Longrightarrow> list_all form_char t"
proof -
  assume a: "qs_field rt kv = Some t"
  then obtain ks where ks: "Encode (fst kv) = Some ks"
    by (auto simp: qs_field_def split: option.splits)
  then have f: "list_all form_char ks" by (rule Encode_form)
  show ?thesis
  proof (cases "snd kv")
    case (JArr xs)
    with a ks obtain fs where fs: "those (map (qs_pair rt ks) xs) = Some fs" "t = join (lit ''&'') fs"
      by (auto simp: qs_field_def)
    from fs(1) have "list_all (list_all form_char) fs"
    proof (rule those_all)
      fix x y assume "x \<in> set (map (qs_pair rt ks) xs)" and "x = Some y"
      then obtain v where "qs_pair rt ks v = Some y" by auto
      then show "list_all form_char y" by (rule qs_pair_form [OF f])
    qed
    with fs(2) show ?thesis by (simp add: lit_amp join_form form_char_def)
  qed (use a ks f in \<open>auto simp: qs_field_def dest: qs_pair_form\<close>)
qed

lemma qs_stringify_form: "qs_stringify rt obj = Inr s \<Longrightarrow> list_all form_char s"
proof -
  assume "qs_stringify rt obj = Inr s"
  then obtain fs where fs: "those (map (qs_field rt) obj) = Some fs" "s = join (lit ''&'') fs"
    by (auto simp: qs_stringify_def split: option.splits)
  from fs(1) have "list_all (list_all form_char) fs"
  proof (rule those_all)
    fix x y assume "x \<in> set (map (qs_field rt) obj)" and "x = Some y"
    then obtain kv where "qs_field rt kv = Some y" by auto
    then show "list_all form_char y" by (rule qs_field_form)
  qed
  with fs(2) show ?thesis by (simp add: lit_amp join_form form_char_def)
qed

lemma dataString_form: "dataString rt w d = Inr ds \<Longrightarrow> list_all form_char ds"
  by (auto simp: dataString_def lit_amp form_char_def split: sum.splits option.splits
      dest: qs_stringify_form)

lemma utf8_length_ascii: "list_all (\<lambda>c. c < 0x80) s \<Longrightarrow> utf8_length s = length s"
  by (induction s) simp_all

lemma utf8_length_form: "list_all form_char s \<Longrightarrow> utf8_length s = length s"
  by (rule utf8_length_ascii) (auto simp: list_all_iff dest: form_char_ascii)

section \<open>The claims\<close>

subsection \<open>C1: how often the continuation is called\<close>




subsection \<open>C2: a body that is not JSON\<close>

text \<open>
  C2, what the code does at the failing input. When the accumulated body does not decode,
  the \<^verbatim>\<open>'end'\<close> handler calls the continuation once with the error of \<^verbatim>\<open>JSON.parse\<close> and
  with \<^verbatim>\<open>undefined\<close> (\<^verbatim>\<open>responseData\<close> is declared at line 624 and never assigned), not
  with the buffer, which the message logged at line 636 says is returned to the client.
\<close>

theorem decode_failure_passes_undefined:
  assumes "JSON_parse rt (concat chunks) = Inl e" and "listener r = JFun k a"
  shows "deliver rt (OnResponse # map OnData chunks @ [OnEnd]) (opened r) w
     = (None, \<lparr>continuation = JFun k a, buffer = concat chunks, responded = True\<rparr>,
        w\<lparr>calls := calls w @ [(JFun k a, e, JUndefined)]\<rparr>)"
  using assms by (simp add: opened_def deliver_data)

text \<open>
  C2, witness: the body \<^verbatim>\<open>not json\<close> in two chunks, with a \<^verbatim>\<open>JSON.parse\<close> that throws a
  SyntaxError.
\<close>

theorem decode_failure_passes_undefined_witness:
  "JSON_parse (rejecting (JError SyntaxError JUndefined)) (concat [lit ''not '', lit ''json'']) =
     Inl (JError SyntaxError JUndefined) \<and>
   deliver (rejecting (JError SyntaxError JUndefined))
     [OnResponse, OnData (lit ''not ''), OnData (lit ''json''), OnEnd]
     (opened \<lparr>host = BASE_URL, port = 443, path = ENDPOINT accountGetBalance,
        http_method = JStr (lit ''GET''), headers = HEADERS_initial, secure = True,
        written = None, listener = JFun 0 2\<rparr>) client
   = (None, \<lparr>continuation = JFun 0 2, buffer = lit ''not json'', responded = True\<rparr>,
      client\<lparr>calls := [(JFun 0 2, JError SyntaxError JUndefined, JUndefined)]\<rparr>)"
proof -
  let ?rt = "rejecting (JError SyntaxError JUndefined)"
  let ?r = "\<lparr>host = BASE_URL, port = 443, path = ENDPOINT accountGetBalance,
        http_method = JStr (lit ''GET''), headers = HEADERS_initial, secure = True,
        written = None, listener = JFun 0 2\<rparr>"
  have p: "JSON_parse ?rt (concat [lit ''not '', lit ''json'']) = Inl (JError SyntaxError JUndefined)"
    by (simp add: rejecting_def)
  have l: "listener ?r = JFun 0 2" by simp
  from decode_failure_passes_undefined [OF p l, of client] p show ?thesis
    by (simp add: client_eq lit_def)
qed

subsection \<open>C3: the status of the first message\<close>

text \<open>
  C3, as amended. The decoded payload of a send operation is a JSON object (not
  \<^verbatim>\<open>null\<close>, a list or a primitive value). If it has a
  truthy top-level \<^verbatim>\<open>status\<close>, no truthy top-level \<^verbatim>\<open>error-text\<close>, and a \<^verbatim>\<open>messages\<close> list
  whose first entry is an object with a \<^verbatim>\<open>status\<close> greater than zero, the continuation is
  called once, with an Error that carries the first entry's \<^verbatim>\<open>error-text\<close> and no
  payload. If it has no truthy top-level \<^verbatim>\<open>status\<close>, the continuation is called once with
  \<^verbatim>\<open>null\<close> and the payload unchanged, whatever its \<^verbatim>\<open>messages\<close> list holds.
\<close>

theorem first_message_error_needs_top_level_status:
  "(truthy (obj_get payload (lit ''status'')) \<and>
    \<not> truthy (obj_get payload (lit ''error-text'')) \<and>
    obj_get payload (lit ''messages'') = JArr (JObj entry # entries) \<and>
    js_gt rt (obj_get entry (lit ''status'')) 0 \<longrightarrow>
    call rt (JGuard (JFun k a)) JNull (JObj payload) w
     = (None, w\<lparr>calls := calls w @
          [(JFun k a, JError Error (obj_get entry (lit ''error-text'')), JUndefined)]\<rparr>)) \<and>
   (\<not> truthy (obj_get payload (lit ''status'')) \<longrightarrow>
    call rt (JGuard (JFun k a)) JNull (JObj payload) w
     = (None, w\<lparr>calls := calls w @ [(JFun k a, JNull, JObj payload)]\<rparr>))"
  by (simp add: guard_top_level_def guard_first_message_def first_message_text_def)

text \<open>
  C3, witness: top-level status 1 and a first message with status 2 and the text
  \<^verbatim>\<open>Missing to param\<close>, which gives the Error; and the same first message status with
  no top-level status, which is passed on.
\<close>

theorem first_message_error_needs_top_level_status_witness:
  "truthy (obj_get [(lit ''status'', JNum 1),
       (lit ''messages'', JArr [JObj [(lit ''status'', JNum 2), (lit ''error-text'', JStr (lit ''Missing to param''))]])]
     (lit ''status'')) \<and>
   js_gt (decoding JNull) (obj_get [(lit ''status'', JNum 2), (lit ''error-text'', JStr (lit ''Missing to param''))] (lit ''status'')) 0 \<and>
   call (decoding JNull) (JGuard (JFun 0 2)) JNull
     (JObj [(lit ''status'', JNum 1),
       (lit ''messages'', JArr [JObj [(lit ''status'', JNum 2), (lit ''error-text'', JStr (lit ''Missing to param''))]])])
     client
   = (None, client\<lparr>calls := [(JFun 0 2, JError Error (JStr (lit ''Missing to param'')), JUndefined)]\<rparr>) \<and>
   \<not> truthy (obj_get [(lit ''messages'', JArr [JObj [(lit ''status'', JNum 2)]])] (lit ''status'')) \<and>
   call (decoding JNull) (JGuard (JFun 0 2)) JNull
     (JObj [(lit ''messages'', JArr [JObj [(lit ''status'', JNum 2)]])]) client
   = (None, client\<lparr>calls := [(JFun 0 2, JNull,
        JObj [(lit ''messages'', JArr [JObj [(lit ''status'', JNum 2)]])])]\<rparr>)"
proof -
  let ?entry = "[(lit ''status'', JNum 2), (lit ''error-text'', JStr (lit ''Missing to param''))]"
  let ?payload = "[(lit ''status'', JNum 1), (lit ''messages'', JArr [JObj ?entry])]"
  let ?bare = "[(lit ''messages'', JArr [JObj [(lit ''status'', JNum 2)]])]"
  have 1: "truthy (obj_get ?payload (lit ''status''))" by (simp add: obj_get_def)
  have 2: "\<not> truthy (obj_get ?payload (lit ''error-text''))" by (simp add: obj_get_def lit_def)
  have 3: "obj_get ?payload (lit ''messages'') = JArr (JObj ?entry # [])" by (simp add: obj_get_def lit_def)
  have 4: "js_gt (decoding JNull) (obj_get ?entry (lit ''status'')) 0"
    by (simp add: obj_get_def js_gt_def ToNumber_def)
  have 5: "obj_get ?entry (lit ''error-text'') = JStr (lit ''Missing to param'')"
    by (simp add: obj_get_def lit_def)
  have 6: "\<not> truthy (obj_get ?bare (lit ''status''))" by (simp add: obj_get_def lit_def)
  from first_message_error_needs_top_level_status
         [of ?payload ?entry "[]" "decoding JNull" 0 2 client] 1 2 3 4 5
  have a: "call (decoding JNull) (JGuard (JFun 0 2)) JNull (JObj ?payload) client
     = (None, client\<lparr>calls := [(JFun 0 2, JError Error (JStr (lit ''Missing to param'')), JUndefined)]\<rparr>)"
    by (simp add: client_eq)
  from first_message_error_needs_top_level_status
         [of ?bare _ _ "decoding JNull" 0 2 client] 6
  have b: "call (decoding JNull) (JGuard (JFun 0 2)) JNull (JObj ?bare) client
     = (None, client\<lparr>calls := [(JFun 0 2, JNull, JObj ?bare)]\<rparr>)"
    by (simp add: client_eq)
  from 1 4 a 6 b show ?thesis by blast
qed

text \<open>
  C3, counterexample to the claim as stated: \<^verbatim>\<open>sendTextMessage\<close> on an initialized client,
  answered with a payload that has no top-level \<^verbatim>\<open>status\<close> and a first message of status
  \<^verbatim>\<open>"2"\<close>. Line 543 asks for \<^verbatim>\<open>apiResponse.status\<close> first, so the guard takes its last
  branch and the continuation gets \<^verbatim>\<open>null\<close> and the payload: a success.
\<close>

theorem first_message_error_passes_as_success:
  \<open>perform
     (decoding (JObj [(lit ''message-count'', JStr (lit ''1'')),
        (lit ''messages'',
         JArr [JObj [(lit ''status'', JStr (lit ''2'')),
                     (lit ''error-text'', JStr (lit ''Missing to param''))]])]))
     (sendTextMessage
        (decoding (JObj [(lit ''message-count'', JStr (lit ''1'')),
        (lit ''messages'',
         JArr [JObj [(lit ''status'', JStr (lit ''2'')),
                     (lit ''error-text'', JStr (lit ''Missing to param''))]])]))
        (JStr (lit ''Acme'')) (JStr (lit ''447700900000'')) (JStr (lit ''hello'')) (JFun 0 2))
     [OnResponse, OnData (lit
        ''{"message-count":"1","messages":[{"status":"2","error-text":"Missing to param"}]}''), OnEnd] client
   = (None,
      client\<lparr>HEADERS := HEADERS_initial @ [(lit ''Content-Length'', JNum 79)],
        requests :=
          [\<lparr>host = BASE_URL, port = 443, path = lit ''/sms/json'',
            http_method = JStr (lit ''POST''),
            headers = HEADERS_initial @ [(lit ''Content-Length'', JNum 79)],
            secure = True,
            written = Some (lit
              ''api_key=key&api_secret=secret&from=Acme&to=447700900000&type=unicode&text=hello''),
            listener = JGuard (JFun 0 2)\<rparr>],
        calls := [(JFun 0 2, JNull, (JObj [(lit ''message-count'', JStr (lit ''1'')),
        (lit ''messages'',
         JArr [JObj [(lit ''status'', JStr (lit ''2'')),
                     (lit ''error-text'', JStr (lit ''Missing to param''))]])]))]\<rparr>)\<close>
  by (simp add: eval_defs client_eq HEADERS_initial_def lit_def)

subsection \<open>C4: validation failures\<close>

text \<open>
  C4, what the code does at the failing inputs. \<^verbatim>\<open>updateSecret\<close> with an empty or an
  over-long secret, \<^verbatim>\<open>updateMoCallBackUrl\<close> and \<^verbatim>\<open>updateDrCallBackUrl\<close> with an empty URL and
  \<^verbatim>\<open>getTopUp\<close> with an empty transaction id call \<^verbatim>\<open>sendError\<close>, which does not exist: a
  ReferenceError escapes and the continuation, given or not, is not called.
\<close>

theorem sendError_is_not_defined:
  "updateSecret rt (JStr []) callback w = (Some (JError ReferenceError JUndefined), w) \<and>
   updateSecret rt (JStr (lit ''123456789'')) callback w = (Some (JError ReferenceError JUndefined), w) \<and>
   updateMoCallBackUrl rt (JStr []) callback w = (Some (JError ReferenceError JUndefined), w) \<and>
   updateDrCallBackUrl rt (JStr []) callback w = (Some (JError ReferenceError JUndefined), w) \<and>
   getTopUp rt (JStr []) callback w = (Some (JError ReferenceError JUndefined), w)"
  by (simp add: updateSecret_def updateMoCallBackUrl_def updateDrCallBackUrl_def getTopUp_def
      sendError_def js_gt_def ToNumber_def lit_def)

text \<open>
  C4, witness: the same calls with a continuation, on an initialized client. Nothing is
  called and no request is made.
\<close>

theorem sendError_is_not_defined_witness:
  "updateSecret (decoding JNull) (JStr []) (JFun 0 2) client =
     (Some (JError ReferenceError JUndefined), client) \<and>
   updateSecret (decoding JNull) (JStr (lit ''123456789'')) (JFun 0 2) client =
     (Some (JError ReferenceError JUndefined), client) \<and>
   updateMoCallBackUrl (decoding JNull) (JStr []) (JFun 0 2) client =
     (Some (JError ReferenceError JUndefined), client) \<and>
   updateDrCallBackUrl (decoding JNull) (JStr []) (JFun 0 2) client =
     (Some (JError ReferenceError JUndefined), client) \<and>
   getTopUp (decoding JNull) (JStr []) (JFun 0 2) client =
     (Some (JError ReferenceError JUndefined), client)"
  by (rule sendError_is_not_defined [of "decoding JNull" "JFun 0 2" client])

subsection \<open>C5: operations on a client that is not initialized\<close>

text \<open>
  C5, as amended. On a client that is not initialized no operation, whatever its
  arguments, issues a request. When the arguments are such that an initialized client
  would issue one, the call throws the not-initialized message and changes nothing: no
  continuation is called. (Each operation validates its arguments before it reaches the
  test of line 564, and \<^verbatim>\<open>updateNumberCallback\<close> never reaches it.)
\<close>

theorem not_initialized_before_any_request:
  assumes "\<not> initialized w"
  shows "requests (snd (invoke rt op w)) = requests w \<and>
         (requests (snd (invoke rt op (w\<lparr>initialized := True\<rparr>))) \<noteq> requests w \<longrightarrow>
            invoke rt op w = (Some (JStr (ERROR_MESSAGES initializeRequired)), w))"
  using assms
  by (cases op)
     (simp_all add: operation_defs sendRequest_uninitialized Let_def split: sum.split option.split)

text \<open>C5, witness: \<^verbatim>\<open>sendTextMessage\<close> with valid arguments before \<^verbatim>\<open>init\<close>.\<close>

theorem not_initialized_before_any_request_witness:
  "\<not> initialized loaded \<and>
   requests (snd (invoke (decoding JNull)
       (SendTextMessage (JStr (lit ''Acme'')) (JStr (lit ''447700900000'')) (JStr (lit ''hello'')) (JFun 0 2))
       (loaded\<lparr>initialized := True\<rparr>))) \<noteq> requests loaded \<and>
   invoke (decoding JNull)
       (SendTextMessage (JStr (lit ''Acme'')) (JStr (lit ''447700900000'')) (JStr (lit ''hello'')) (JFun 0 2))
       loaded
     = (Some (JStr (ERROR_MESSAGES initializeRequired)), loaded)"
proof -
  let ?op = "SendTextMessage (JStr (lit ''Acme'')) (JStr (lit ''447700900000'')) (JStr (lit ''hello'')) (JFun 0 2)"
  have u: "\<not> initialized loaded" by (simp add: loaded_def)
  have r: "requests (snd (invoke (decoding JNull) ?op (loaded\<lparr>initialized := True\<rparr>))) \<noteq> requests loaded"
    by (simp add: eval_defs loaded_def lit_def)
  from not_initialized_before_any_request [OF u, of "decoding JNull" ?op] u r show ?thesis
    by blast
qed

text \<open>
  C5, counterexample to the claim as stated: \<^verbatim>\<open>sendTextMessage\<close> with an empty message
  before \<^verbatim>\<open>init\<close>. Line 134 comes before any test of \<^verbatim>\<open>_initialized\<close>: the call returns
  normally and the continuation is called with the validation error.
\<close>

theorem validation_runs_before_initialization_check:
  "invoke (decoding JNull)
     (SendTextMessage (JStr (lit ''Acme'')) (JStr (lit ''447700900000'')) (JStr []) (JFun 0 2)) loaded
   = (None, loaded\<lparr>calls := [(JFun 0 2, JError Error (JStr (lit ''Invalid text message'')), JUndefined)]\<rparr>)"
  by (simp add: sendTextMessage_def new_Error_def loaded_def)

subsection \<open>C6: a top-level status with an error text\<close>

text \<open>
  C6, as amended. The decoded payload of a send operation is an object whose top-level
  \<^verbatim>\<open>status\<close> and \<^verbatim>\<open>error-text\<close> are both truthy. Then the continuation is called once, with
  an Error that carries that \<^verbatim>\<open>error-text\<close> and no payload.
\<close>

theorem top_level_error_text:
  assumes "truthy (obj_get payload (lit ''status''))"
    and "truthy (obj_get payload (lit ''error-text''))"
  shows "call rt (JGuard (JFun k a)) JNull (JObj payload) w
     = (None, w\<lparr>calls := calls w @
          [(JFun k a, JError Error (obj_get payload (lit ''error-text'')), JUndefined)]\<rparr>)"
  using assms by (simp add: guard_top_level_def)

text \<open>C6, witness: the payload \<^verbatim>\<open>{"status":"1","error-text":"bad request"}\<close>.\<close>

theorem top_level_error_text_witness:
  "truthy (obj_get [(lit ''status'', JStr (lit ''1'')), (lit ''error-text'', JStr (lit ''bad request''))] (lit ''status'')) \<and>
   truthy (obj_get [(lit ''status'', JStr (lit ''1'')), (lit ''error-text'', JStr (lit ''bad request''))] (lit ''error-text'')) \<and>
   call (decoding JNull) (JGuard (JFun 0 2)) JNull
     (JObj [(lit ''status'', JStr (lit ''1'')), (lit ''error-text'', JStr (lit ''bad request''))]) client
   = (None, client\<lparr>calls := [(JFun 0 2, JError Error (JStr (lit ''bad request'')), JUndefined)]\<rparr>)"
proof -
  let ?payload = "[(lit ''status'', JStr (lit ''1'')), (lit ''error-text'', JStr (lit ''bad request''))]"
  have 1: "truthy (obj_get ?payload (lit ''status''))" by (simp add: obj_get_def lit_def)
  have 2: "truthy (obj_get ?payload (lit ''error-text''))" by (simp add: obj_get_def lit_def)
  have 3: "obj_get ?payload (lit ''error-text'') = JStr (lit ''bad request'')"
    by (simp add: obj_get_def lit_def)
  from top_level_error_text [OF 1 2, of "decoding JNull" 0 2 client] 1 2 3 show ?thesis
    by (simp add: client_eq)
qed

text \<open>
  C6, counterexample to the claim as stated: \<^verbatim>\<open>sendTextMessage\<close> on an initialized client,
  answered with \<^verbatim>\<open>{"status":"1","error-text":""}\<close>. The payload has a truthy status and an
  \<^verbatim>\<open>error-text\<close> field, but line 540 asks for a truthy \<^verbatim>\<open>error-text\<close>: the continuation
  gets \<^verbatim>\<open>null\<close> and the payload, a success.
\<close>

theorem empty_error_text_passes_as_success:
  \<open>perform
     (decoding (JObj [(lit ''status'', JStr (lit ''1'')), (lit ''error-text'', JStr [])]))
     (sendTextMessage
        (decoding (JObj [(lit ''status'', JStr (lit ''1'')), (lit ''error-text'', JStr [])]))
        (JStr (lit ''Acme'')) (JStr (lit ''447700900000'')) (JStr (lit ''hello'')) (JFun 0 2))
     [OnResponse, OnData (lit
        ''{"status":"1","error-text":""}''), OnEnd] client
   = (None,
      client\<lparr>HEADERS := HEADERS_initial @ [(lit ''Content-Length'', JNum 79)],
        requests :=
          [\<lparr>host = BASE_URL, port = 443, path = lit ''/sms/json'',
            http_method = JStr (lit ''POST''),
            headers = HEADERS_initial @ [(lit ''Content-Length'', JNum 79)],
            secure = True,
            written = Some (lit
              ''api_key=key&api_secret=secret&from=Acme&to=447700900000&type=unicode&text=hello''),
            listener = JGuard (JFun 0 2)\<rparr>],
        calls := [(JFun 0 2, JNull, (JObj [(lit ''status'', JStr (lit ''1'')), (lit ''error-text'', JStr [])]))]\<rparr>)\<close>
  by (simp add: eval_defs client_eq HEADERS_initial_def lit_def)

subsection \<open>C7: the body and the Content-Length of a POST\<close>

text \<open>
  C7. Whenever \<^verbatim>\<open>sendRequest\<close> issues a POST, for any parameters: the body written is the
  credentials through \<^verbatim>\<open>querystring.stringify\<close>, then \<^verbatim>\<open>&\<close> and the parameters through it
  when there are any; it consists of characters of a URL-encoded form only, whatever
  characters the credentials and parameters hold; the Content-Length header of the
  request is the number of bytes of that body in UTF-8; and the path is the endpoint,
  with no query string.
\<close>

theorem post_body_and_content_length:
  assumes "sendRequest rt endpoint d (JStr (lit ''POST'')) callback w = (None, w')"
  shows "\<exists>c ds r.
           requests w' = requests w @ [r] \<and>
           qs_stringify rt [(lit ''api_key'', apiKey w), (lit ''api_secret'', apiSecret w)] = Inr c \<and>
           (case d of
              None \<Rightarrow> ds = c
            | Some params \<Rightarrow> \<exists>s. qs_stringify rt params = Inr s \<and> ds = c @ lit ''&'' @ s) \<and>
           list_all form_char ds \<and>
           written r = Some ds \<and>
           map_of (headers r) (lit ''Content-Length'') = Some (JNum (int (utf8_length ds))) \<and>
           path r = endpoint \<and>
           http_method r = JStr (lit ''POST'')"
proof -
  from sendRequest_issued [OF assms] obtain ds where
    ds: "dataString rt w d = Inr ds" and
    w': "w' = w\<lparr>HEADERS := obj_set (HEADERS w) (lit ''Content-Length'') (JNum (int (length ds))),
            requests := requests w @
              [\<lparr>host = BASE_URL, port = (if useHttps w then 443 else 80),
                path = endpoint,
                http_method = JStr (lit ''POST''),
                headers = obj_set (HEADERS w) (lit ''Content-Length'') (JNum (int (length ds))),
                secure = useHttps w,
                written = Some ds,
                listener = callback\<rparr>]\<rparr>"
    by auto
  from ds have f: "list_all form_char ds" by (rule dataString_form)
  then have u: "utf8_length ds = length ds" by (rule utf8_length_form)
  from ds obtain c where
    c: "qs_stringify rt [(lit ''api_key'', apiKey w), (lit ''api_secret'', apiSecret w)] = Inr c"
       "case d of None \<Rightarrow> ds = c
        | Some params \<Rightarrow> \<exists>s. qs_stringify rt params = Inr s \<and> ds = c @ lit ''&'' @ s"
    by (auto simp: dataString_def split: sum.splits option.splits)
  from w' c f u show ?thesis
    by (simp add: map_of_obj_set)
qed

text \<open>
  C7, witness: a POST whose parameter holds \<^verbatim>\<open>h\<close>, an e with acute accent (two bytes in
  UTF-8) and an emoji (a surrogate pair, four bytes). The body is
  \<^verbatim>\<open>api_key=key&api_secret=secret&text=h%C3%A9%F0%9F%98%80\<close>, 54 characters and 54 bytes.
\<close>

theorem post_body_and_content_length_witness:
  "sendRequest (decoding JNull) (ENDPOINT sms)
     (Some [(lit ''text'', JStr [0x68, 0xE9, 0xD83D, 0xDE00])]) (JStr (lit ''POST'')) (JFun 0 2) client
   = (None,
      client\<lparr>HEADERS := HEADERS_initial @ [(lit ''Content-Length'', JNum 54)],
        requests :=
          [\<lparr>host = BASE_URL, port = 443, path = lit ''/sms/json'',
            http_method = JStr (lit ''POST''),
            headers = HEADERS_initial @ [(lit ''Content-Length'', JNum 54)],
            secure = True,
            written = Some (lit ''api_key=key&api_secret=secret&text=h%C3%A9%F0%9F%98%80''),
            listener = JFun 0 2\<rparr>]\<rparr>) \<and>
   utf8_length (lit ''api_key=key&api_secret=secret&text=h%C3%A9%F0%9F%98%80'') = 54"
proof -
  let ?w' = "client\<lparr>HEADERS := HEADERS_initial @ [(lit ''Content-Length'', JNum 54)],
        requests :=
          [\<lparr>host = BASE_URL, port = 443, path = lit ''/sms/json'',
            http_method = JStr (lit ''POST''),
            headers = HEADERS_initial @ [(lit ''Content-Length'', JNum 54)],
            secure = True,
            written = Some (lit ''api_key=key&api_secret=secret&text=h%C3%A9%F0%9F%98%80''),
            listener = JFun 0 2\<rparr>]\<rparr>"
  have h: "sendRequest (decoding JNull) (ENDPOINT sms)
     (Some [(lit ''text'', JStr [0x68, 0xE9, 0xD83D, 0xDE00])]) (JStr (lit ''POST'')) (JFun 0 2) client
     = (None, ?w')"
    by (simp add: eval_defs client_eq HEADERS_initial_def utf8_def percent_def hexdigit_def lit_def)
  from post_body_and_content_length [OF h] obtain ds r where
    r: "requests ?w' = requests client @ [r]" "written r = Some ds"
       "map_of (headers r) (lit ''Content-Length'') = Some (JNum (int (utf8_length ds)))"
    by blast
  from r(1) have "r = \<lparr>host = BASE_URL, port = 443, path = lit ''/sms/json'',
            http_method = JStr (lit ''POST''),
            headers = HEADERS_initial @ [(lit ''Content-Length'', JNum 54)],
            secure = True,
            written = Some (lit ''api_key=key&api_secret=secret&text=h%C3%A9%F0%9F%98%80''),
            listener = JFun 0 2\<rparr>"
    by (simp add: client_eq)
  with r(2,3) have "map_of (HEADERS_initial @ [(lit ''Content-Length'', JNum 54)]) (lit ''Content-Length'')
      = Some (JNum (int (utf8_length (lit ''api_key=key&api_secret=secret&text=h%C3%A9%F0%9F%98%80''))))"
    by simp
  then have "utf8_length (lit ''api_key=key&api_secret=secret&text=h%C3%A9%F0%9F%98%80'') = 54"
    by (simp add: HEADERS_initial_def lit_def)
  with h show ?thesis by simp
qed

subsection \<open>C8: transport failures\<close>

text \<open>
  C8, what the code does at the failing input. \<^verbatim>\<open>getBalance\<close> is called with no
  continuation on an initialized client, and the transport reports an error, or closes
  the response. The handlers of lines 644--655 call \<^verbatim>\<open>callback(e)\<close> without the test the
  \<^verbatim>\<open>'end'\<close> handler makes at line 628, and a TypeError is thrown.
\<close>

theorem transport_failure_without_continuation_throws:
  "perform rt (getBalance rt JUndefined) [OnError e] client
     = (Some (JError TypeError JUndefined),
        client\<lparr>requests :=
         [\<lparr>host = BASE_URL, port = 443,
           path = lit ''/account/get-balance?api_key=key&api_secret=secret'',
           http_method = JUndefined, headers = HEADERS_initial, secure = True,
           written = None, listener = JUndefined\<rparr>]\<rparr>) \<and>
   perform rt (getBalance rt JUndefined) [OnResponse, OnClose e] client
     = (Some (JError TypeError JUndefined),
        client\<lparr>requests :=
         [\<lparr>host = BASE_URL, port = 443,
           path = lit ''/account/get-balance?api_key=key&api_secret=secret'',
           http_method = JUndefined, headers = HEADERS_initial, secure = True,
           written = None, listener = JUndefined\<rparr>]\<rparr>)"
  by (simp add: eval_defs client_eq lit_def)

text \<open>C8, witness: a connection reset reported to \<^verbatim>\<open>getBalance()\<close>.\<close>

theorem transport_failure_without_continuation_throws_witness:
  "perform (decoding JNull) (getBalance (decoding JNull) JUndefined)
     [OnError (JError Error (JStr (lit ''ECONNRESET'')))] client
     = (Some (JError TypeError JUndefined),
        client\<lparr>requests :=
         [\<lparr>host = BASE_URL, port = 443,
           path = lit ''/account/get-balance?api_key=key&api_secret=secret'',
           http_method = JUndefined, headers = HEADERS_initial, secure = True,
           written = None, listener = JUndefined\<rparr>]\<rparr>)"
  by (rule conjunct1 [OF transport_failure_without_continuation_throws
        [of "decoding JNull" "JError Error (JStr (lit ''ECONNRESET''))"]])

subsection \<open>C9: the headers of a GET after a POST\<close>

text \<open>
  C9, what the code does. A POST has gone out, and a request with another method follows
  (a call with three arguments, its callback in the place of the method, is a GET).
  Line 586 wrote the Content-Length of the POST into the shared \<^verbatim>\<open>_HEADERS\<close> object, which
  the comment at line 32 calls a constant; nothing takes it out again, so the later
  request has no body and carries the headers of the POST, its Content-Length included.
\<close>

theorem content_length_left_over:
  assumes "sendRequest rt endpoint1 d1 (JStr (lit ''POST'')) callback1 w = (None, w1)"
    and "m \<noteq> JStr (lit ''POST'')"
    and "sendRequest rt endpoint2 d2 m callback2 w1 = (None, w2)"
  shows "\<exists>ds. written (last (requests w1)) = Some ds \<and>
           http_method (last (requests w2)) \<noteq> JStr (lit ''POST'') \<and>
           written (last (requests w2)) = None \<and>
           headers (last (requests w2)) = headers (last (requests w1)) \<and>
           map_of (headers (last (requests w2))) (lit ''Content-Length'') = Some (JNum (int (length ds)))"
proof -
  have g: "JStr (lit ''GET'') \<noteq> JStr (lit ''POST'')" by (simp add: lit_def)
  from sendRequest_issued [OF assms(1)] obtain ds where
    1: "written (last (requests w1)) = Some ds"
       "headers (last (requests w1)) = obj_set (HEADERS w) (lit ''Content-Length'') (JNum (int (length ds)))"
       "HEADERS w1 = obj_set (HEADERS w) (lit ''Content-Length'') (JNum (int (length ds)))"
    by auto
  from sendRequest_issued [OF assms(3)] assms(2) g have
    2: "headers (last (requests w2)) = HEADERS w1" "written (last (requests w2)) = None"
       "http_method (last (requests w2)) \<noteq> JStr (lit ''POST'')"
    by (auto split: if_splits)
  from 1 2 show ?thesis by (simp add: map_of_obj_set)
qed

text \<open>
  C9, witness: \<^verbatim>\<open>updateSecret('abc', f)\<close>, a POST with a body of 43 characters, then
  \<^verbatim>\<open>getBalance(g)\<close>, a GET that is sent with \<^verbatim>\<open>Content-Length: 43\<close>.
\<close>

theorem content_length_left_over_witness:
  "updateSecret (decoding JNull) (JStr (lit ''abc'')) (JFun 0 2) client =
     (None, snd (updateSecret (decoding JNull) (JStr (lit ''abc'')) (JFun 0 2) client)) \<and>
   getBalance (decoding JNull) (JFun 1 2)
       (snd (updateSecret (decoding JNull) (JStr (lit ''abc'')) (JFun 0 2) client)) =
     (None, snd (getBalance (decoding JNull) (JFun 1 2)
       (snd (updateSecret (decoding JNull) (JStr (lit ''abc'')) (JFun 0 2) client)))) \<and>
   http_method (last (requests (snd (getBalance (decoding JNull) (JFun 1 2)
       (snd (updateSecret (decoding JNull) (JStr (lit ''abc'')) (JFun 0 2) client)))))) =
     JStr (lit ''GET'') \<and>
   map_of (headers (last (requests (snd (getBalance (decoding JNull) (JFun 1 2)
       (snd (updateSecret (decoding JNull) (JStr (lit ''abc'')) (JFun 0 2) client)))))))
     (lit ''Content-Length'') = Some (JNum 43)"
proof -
  let ?rt = "decoding JNull"
  let ?w1 = "snd (updateSecret ?rt (JStr (lit ''abc'')) (JFun 0 2) client)"
  let ?w2 = "snd (getBalance ?rt (JFun 1 2) ?w1)"
  have u: "updateSecret ?rt (JStr (lit ''abc'')) (JFun 0 2) client =
      sendRequest ?rt (ENDPOINT accountSettings) (Some [(lit ''newSecret'', JStr (lit ''abc''))])
        (JStr (lit ''POST'')) (JFun 0 2) client"
    by (simp add: updateSecret_def encodeURIComponent_def js_gt_def ToNumber_def uriUnescaped_def lit_def)
  have w1: "sendRequest ?rt (ENDPOINT accountSettings) (Some [(lit ''newSecret'', JStr (lit ''abc''))])
        (JStr (lit ''POST'')) (JFun 0 2) client =
      (None, client\<lparr>HEADERS := HEADERS_initial @ [(lit ''Content-Length'', JNum 43)],
         requests := [\<lparr>host = BASE_URL, port = 443, path = lit ''/account/settings'',
            http_method = JStr (lit ''POST''),
            headers = HEADERS_initial @ [(lit ''Content-Length'', JNum 43)], secure = True,
            written = Some (lit ''api_key=key&api_secret=secret&newSecret=abc''),
            listener = JFun 0 2\<rparr>]\<rparr>)"
    by (simp add: eval_defs client_eq HEADERS_initial_def lit_def)
  have h1: "sendRequest ?rt (ENDPOINT accountSettings) (Some [(lit ''newSecret'', JStr (lit ''abc''))])
        (JStr (lit ''POST'')) (JFun 0 2) client = (None, ?w1)"
    by (simp only: u w1 snd_conv)
  have m: "JFun 1 2 \<noteq> JStr (lit ''POST'')" by simp
  have h2: "sendRequest ?rt (ENDPOINT accountGetBalance) None (JFun 1 2) JUndefined ?w1 = (None, ?w2)"
    unfolding u w1 snd_conv by (simp add: eval_defs client_eq HEADERS_initial_def lit_def)
  have g: "http_method (last (requests ?w2)) = JStr (lit ''GET'')"
    unfolding u w1 snd_conv by (simp add: eval_defs client_eq HEADERS_initial_def lit_def)
  from content_length_left_over [OF h1 m h2] obtain ds where
    ds: "written (last (requests ?w1)) = Some ds"
      "map_of (headers (last (requests ?w2))) (lit ''Content-Length'') = Some (JNum (int (length ds)))"
    by auto
  from ds(1) have "ds = lit ''api_key=key&api_secret=secret&newSecret=abc''"
    unfolding u w1 snd_conv by simp
  then have "length ds = 43" by (simp add: lit_def)
  with ds(2) have c: "map_of (headers (last (requests ?w2))) (lit ''Content-Length'') = Some (JNum 43)"
    by simp
  from h1 u have a: "updateSecret ?rt (JStr (lit ''abc'')) (JFun 0 2) client = (None, ?w1)"
    by simp
  from h2 have b: "getBalance ?rt (JFun 1 2) ?w1 = (None, ?w2)"
    by (simp only: getBalance_def)
  from a b g c show ?thesis by blast
qed

subsection \<open>C10: an empty list of messages\<close>

text \<open>
  C10, what the code does at the failing input. The payload has a truthy status, no
  \<^verbatim>\<open>error-text\<close> and an empty \<^verbatim>\<open>messages\<close> list. An empty list is truthy, its first entry
  is \<^verbatim>\<open>undefined\<close>, and reading \<^verbatim>\<open>status\<close> of it at line 543 throws a TypeError: the
  guard calls nothing.
\<close>

theorem empty_messages_list_faults:
  "call rt (JGuard callback) JNull
     (JObj [(lit ''status'', JStr (lit ''1'')), (lit ''messages'', JArr [])]) w
   = (Some (JError TypeError JUndefined), w)"
  by (simp add: guard_top_level_def guard_first_message_def obj_get_def lit_def)

text \<open>
  C10, witness: the guard of a send operation with a continuation, on an initialized
  client.
\<close>

theorem empty_messages_list_faults_witness:
  "call (decoding JNull) (JGuard (JFun 0 2)) JNull
     (JObj [(lit ''status'', JStr (lit ''1'')), (lit ''messages'', JArr [])]) client
   = (Some (JError TypeError JUndefined), client)"
  by (rule empty_messages_list_faults [of "decoding JNull" "JFun 0 2" client])

end
